theory Spec2Isabelle
  imports Main
begin

section \<open>AI chat application: agent manager and HTTP routes\<close>

text \<open>
  The repository consists of \<^verbatim>\<open>backend/agent.py\<close> (class \<^verbatim>\<open>AgentManager\<close> and the
  process-wide instance \<^verbatim>\<open>agent_manager\<close>), \<^verbatim>\<open>backend/routes.py\<close> (the handlers
  \<^verbatim>\<open>upload_file\<close> and \<^verbatim>\<open>chat\<close>) and \<^verbatim>\<open>main.py\<close>. Its functions are thin
  compositions of calls into third-party packages (FAISS, LangChain, pypdf). Those packages
  are not part of the repository, so every call into them is a field of the record
  \<open>libs\<close> below: an arbitrary function that either returns a value or raises. The
  theorems hold for every such record, i.e. whatever the packages compute.
\<close>

subsection \<open>Values\<close>

text \<open>A raised Python exception: its class name and the text that \<^verbatim>\<open>str(e)\<close> gives.\<close>

datatype exn = Exn (exn_class: string) (exn_str: string)

text \<open>
  What a request handler raises: \<^verbatim>\<open>HTTPException(status_code, detail)\<close>, or any other
  exception that leaves the handler uncaught.
\<close>

datatype http_error = HTTPException (status_code: int) (detail: string) | Unhandled exn

datatype document = Document (page_content: string)

datatype role = Human | AI

type_synonym bytes = "char list"

type_synonym chat_history = "(role \<times> string) list"

record tool =
  name :: string
  func :: "string \<Rightarrow> string"
  description :: string

record llm =
  model :: string
  temperature :: int

record splitter =
  chunk_size :: nat
  chunk_overlap :: nat

subsection \<open>The third-party packages\<close>

record ('vs, 'e, 'pg) libs =
  hf_embeddings :: "string \<Rightarrow> exn + 'e"
    \<comment> \<open>\<^verbatim>\<open>HuggingFaceEmbeddings(model_name=...)\<close>\<close>
  from_texts :: "string list \<Rightarrow> 'e \<Rightarrow> exn + 'vs"
    \<comment> \<open>\<^verbatim>\<open>FAISS.from_texts(texts, embeddings)\<close>\<close>
  similarity_search :: "'vs \<Rightarrow> string \<Rightarrow> int \<Rightarrow> exn + document list"
    \<comment> \<open>\<^verbatim>\<open>vector_store.similarity_search(query, k=k)\<close>\<close>
  python_repl_run :: "string \<Rightarrow> string"
    \<comment> \<open>\<^verbatim>\<open>PythonREPL().run\<close>\<close>
  agent_executor :: "tool list \<Rightarrow> llm \<Rightarrow> chat_history \<Rightarrow> string \<Rightarrow> exn + string"
    \<comment> \<open>the reasoning loop of the LangChain agent against the model backend\<close>
  read_text :: "bytes \<Rightarrow> exn + string"
    \<comment> \<open>\<^verbatim>\<open>open(path, 'r', encoding='utf-8').read()\<close> on a file holding these bytes\<close>
  pdf_reader :: "bytes \<Rightarrow> exn + 'pg list"
    \<comment> \<open>\<^verbatim>\<open>PdfReader(path).pages\<close>\<close>
  extract_text :: "'pg \<Rightarrow> exn + string"
    \<comment> \<open>\<^verbatim>\<open>page.extract_text()\<close>\<close>
  split_text :: "splitter \<Rightarrow> string \<Rightarrow> exn + string list"
    \<comment> \<open>\<^verbatim>\<open>RecursiveCharacterTextSplitter(chunk_size, chunk_overlap).split_text(text)\<close>\<close>

subsection \<open>\<^verbatim>\<open>backend/agent.py\<close>\<close>

record agent =
  tools :: "tool list"
  agent_llm :: llm
  memory :: chat_history

record ('vs, 'e) agent_manager =
  the_agent :: agent
  vector_store :: 'vs
  embeddings :: 'e

text \<open>The tool built at the top of \<^verbatim>\<open>_setup_agent\<close>.\<close>

definition calculator :: "('vs, 'e, 'pg) libs \<Rightarrow> tool" where
  "calculator L =
     \<lparr>name = ''calculator'',
      func = python_repl_run L,
      description = ''Useful for when you need to perform mathematical calculations. Input should be a valid Python expression.''\<rparr>"

text \<open>
  \<^verbatim>\<open>os.getenv\<close> reads the process environment, a map from names to values. The test
  \<^verbatim>\<open>if not google_api_key\<close> holds for \<^verbatim>\<open>None\<close> and for the empty string.
\<close>

type_synonym environ = "string \<rightharpoonup> string"

definition setup_agent :: "('vs, 'e, 'pg) libs \<Rightarrow> environ \<Rightarrow> exn + agent" where
  "setup_agent L env =
     (case env ''GOOGLE_API_KEY'' of
        None \<Rightarrow> Inl (Exn ''ValueError'' ''GOOGLE_API_KEY environment variable is not set'')
      | Some google_api_key \<Rightarrow>
          if google_api_key = []
          then Inl (Exn ''ValueError'' ''GOOGLE_API_KEY environment variable is not set'')
          else Inr \<lparr>tools = [calculator L],
                    agent_llm = \<lparr>model = ''gemini-2.0-flash-001'', temperature = 0\<rparr>,
                    memory = []\<rparr>)"

text \<open>
  \<^verbatim>\<open>__init__\<close> and \<^verbatim>\<open>_initialize_components\<close>: the embeddings, then the vector store
  over the one text \<^verbatim>\<open>""\<close>, then the agent. The first step that raises ends the
  construction.
\<close>

definition initialize_components ::
  "('vs, 'e, 'pg) libs \<Rightarrow> environ \<Rightarrow> exn + ('vs, 'e) agent_manager" where
  "initialize_components L env =
     (case hf_embeddings L ''sentence-transformers/all-MiniLM-L6-v2'' of
        Inl e \<Rightarrow> Inl e
      | Inr emb \<Rightarrow>
          (case from_texts L [''''] emb of
             Inl e \<Rightarrow> Inl e
           | Inr vs \<Rightarrow>
               (case setup_agent L env of
                  Inl e \<Rightarrow> Inl e
                | Inr ag \<Rightarrow> Inr \<lparr>the_agent = ag, vector_store = vs, embeddings = emb\<rparr>)))"

text \<open>
  \<^verbatim>\<open>update_vector_store\<close>: the assignment happens only when \<^verbatim>\<open>FAISS.from_texts\<close>
  returns; when it raises, the exception propagates and the manager is as before.
\<close>

definition update_vector_store ::
  "('vs, 'e, 'pg) libs \<Rightarrow> ('vs, 'e) agent_manager \<Rightarrow> string list \<Rightarrow> exn + ('vs, 'e) agent_manager" where
  "update_vector_store L am texts =
     (case from_texts L texts (embeddings am) of
        Inl e \<Rightarrow> Inl e
      | Inr vs \<Rightarrow> Inr (am\<lparr>vector_store := vs\<rparr>))"

definition get_similar_docs ::
  "('vs, 'e, 'pg) libs \<Rightarrow> ('vs, 'e) agent_manager \<Rightarrow> string \<Rightarrow> int \<Rightarrow> exn + document list" where
  "get_similar_docs L am query k = similarity_search L (vector_store am) query k"

text \<open>
  Modelled from the spec: \<^verbatim>\<open>agent.run\<close> is LangChain's, not the repository's. Following
  section 4.5 of the specification, a run submits its input together with the tools and
  the conversation memory to the reasoning loop; when the loop produces a final answer,
  the pair (user, input), (agent, answer) is appended to the memory and the answer is
  returned; when the loop fails, the failure is surfaced and nothing is appended.
\<close>

definition agent_run ::
  "('vs, 'e, 'pg) libs \<Rightarrow> agent \<Rightarrow> string \<Rightarrow> (exn + string) \<times> agent" where
  "agent_run L ag input =
     (case agent_executor L (tools ag) (agent_llm ag) (memory ag) input of
        Inl e \<Rightarrow> (Inl e, ag)
      | Inr answer \<Rightarrow> (Inr answer, ag\<lparr>memory := memory ag @ [(Human, input), (AI, answer)]\<rparr>))"

definition run_agent ::
  "('vs, 'e, 'pg) libs \<Rightarrow> ('vs, 'e) agent_manager \<Rightarrow> string \<Rightarrow> (exn + string) \<times> ('vs, 'e) agent_manager" where
  "run_agent L am prompt =
     (case agent_run L (the_agent am) prompt of
        (r, ag) \<Rightarrow> (r, am\<lparr>the_agent := ag\<rparr>))"

subsection \<open>\<^verbatim>\<open>backend/routes.py\<close>\<close>

text \<open>Python's \<^verbatim>\<open>str.endswith\<close> and \<^verbatim>\<open>str.join\<close>.\<close>

definition endswith :: "string \<Rightarrow> string \<Rightarrow> bool" where
  "endswith s suffix =
     (length suffix \<le> length s \<and> drop (length s - length suffix) s = suffix)"

fun join :: "string \<Rightarrow> string list \<Rightarrow> string" where
  "join sep [] = []"
| "join sep [x] = x"
| "join sep (x # y # ys) = x @ sep @ join sep (y # ys)"

text \<open>
  An uploaded file: its name, and what \<^verbatim>\<open>await file.read()\<close> gives. The state of
  the server: the process-wide \<^verbatim>\<open>agent_manager\<close> and the set of paths of the
  temporary files that exist.
\<close>

record upload =
  filename :: string
  file_read :: "exn + bytes"

record ('vs, 'e) server =
  manager :: "('vs, 'e) agent_manager"
  temp_files :: "nat set"

text \<open>The loop \<^verbatim>\<open>for page in reader.pages: text += page.extract_text()\<close>.\<close>

fun extract_pages :: "('vs, 'e, 'pg) libs \<Rightarrow> string \<Rightarrow> 'pg list \<Rightarrow> exn + string" where
  "extract_pages L text [] = Inr text"
| "extract_pages L text (page # pages) =
     (case extract_text L page of
        Inl e \<Rightarrow> Inl e
      | Inr t \<Rightarrow> extract_pages L (text @ t) pages)"

text \<open>The first statement of the \<^verbatim>\<open>try\<close> block: the text of the document.\<close>

definition document_text :: "('vs, 'e, 'pg) libs \<Rightarrow> string \<Rightarrow> bytes \<Rightarrow> exn + string" where
  "document_text L fname content =
     (if endswith fname ''.txt'' then read_text L content
      else (case pdf_reader L content of
              Inl e \<Rightarrow> Inl e
            | Inr pages \<Rightarrow> extract_pages L [] pages))"

definition text_splitter :: splitter where
  "text_splitter = \<lparr>chunk_size = 1000, chunk_overlap = 200\<rparr>"

text \<open>
  The body of the \<^verbatim>\<open>try\<close> block of \<^verbatim>\<open>upload_file\<close>: either an exception, or the
  success message with the updated manager.
\<close>

definition process_upload ::
  "('vs, 'e, 'pg) libs \<Rightarrow> string \<Rightarrow> bytes \<Rightarrow> ('vs, 'e) agent_manager \<Rightarrow>
     exn + (string \<times> ('vs, 'e) agent_manager)" where
  "process_upload L fname content am =
     (case document_text L fname content of
        Inl e \<Rightarrow> Inl e
      | Inr text \<Rightarrow>
          (case split_text L text_splitter text of
             Inl e \<Rightarrow> Inl e
           | Inr chunks \<Rightarrow>
               (case update_vector_store L am chunks of
                  Inl e \<Rightarrow> Inl e
                | Inr am' \<Rightarrow> Inr (''File processed successfully'', am'))))"

text \<open>
  \<^verbatim>\<open>upload_file\<close>. The path \<open>temp_file_path\<close> is the one
  \<^verbatim>\<open>NamedTemporaryFile(delete=False)\<close> creates. The extension check comes first; the
  \<^verbatim>\<open>with\<close> block that copies the upload into the temporary file is outside the
  \<^verbatim>\<open>try\<close>, so an exception of \<^verbatim>\<open>file.read()\<close> leaves the handler as it is; the
  \<^verbatim>\<open>except\<close> clause turns every exception of the \<^verbatim>\<open>try\<close> block into status 500
  with \<^verbatim>\<open>str(e)\<close> as detail, and the \<^verbatim>\<open>finally\<close> clause unlinks the file.
\<close>

definition upload_file ::
  "('vs, 'e, 'pg) libs \<Rightarrow> nat \<Rightarrow> upload \<Rightarrow> ('vs, 'e) server \<Rightarrow>
     (http_error + string) \<times> ('vs, 'e) server" where
  "upload_file L temp_file_path file st =
     (if \<not> (endswith (filename file) ''.txt'' \<or> endswith (filename file) ''.pdf'')
      then (Inl (HTTPException 400 ''File must be .txt or .pdf''), st)
      else
        (case file_read file of
           Inl e \<Rightarrow>
             (Inl (Unhandled e), st\<lparr>temp_files := insert temp_file_path (temp_files st)\<rparr>)
         | Inr content \<Rightarrow>
             (case process_upload L (filename file) content (manager st) of
                Inl e \<Rightarrow>
                  (Inl (HTTPException 500 (exn_str e)),
                   st\<lparr>temp_files := insert temp_file_path (temp_files st) - {temp_file_path}\<rparr>)
              | Inr (message, am') \<Rightarrow>
                  (Inr message,
                   st\<lparr>manager := am',
                      temp_files := insert temp_file_path (temp_files st) - {temp_file_path}\<rparr>))))"

record chat_response =
  answer :: string
  reasoning :: "string option"

definition nl :: string where
  "nl = [CHR 0x0A]"

text \<open>The f-string of \<^verbatim>\<open>chat\<close>.\<close>

definition chat_prompt :: "string \<Rightarrow> string \<Rightarrow> string" where
  "chat_prompt context question =
     ''You are a helpful AI assistant.'' @ nl @ nl @
     ''Context from documents (if available):'' @ nl @
     context @ nl @ nl @
     ''User Question: '' @ question @ nl @ nl @
     ''Instructions:'' @ nl @
     ''- First, try to answer the question based on the provided context.'' @ nl @
     ''- If the context does not contain the necessary information, rely on your general knowledge to answer.'' @ nl @
     ''- If the question requires calculations, use the calculator tool.'' @ nl @
     ''- Consider the conversation history when formulating your response.'' @ nl @ nl @
     ''Provide a clear, helpful, and accurate answer.''"

text \<open>
  \<^verbatim>\<open>chat\<close>: the search uses the default \<^verbatim>\<open>k=3\<close> of \<^verbatim>\<open>get_similar_docs\<close>; every
  exception becomes status 500.
\<close>

definition chat ::
  "('vs, 'e, 'pg) libs \<Rightarrow> ('vs, 'e) agent_manager \<Rightarrow> string \<Rightarrow>
     (http_error + chat_response) \<times> ('vs, 'e) agent_manager" where
  "chat L am question =
     (case get_similar_docs L am question 3 of
        Inl e \<Rightarrow> (Inl (HTTPException 500 (exn_str e)), am)
      | Inr docs \<Rightarrow>
          (case run_agent L am (chat_prompt (join nl (map page_content docs)) question) of
             (Inl e, am') \<Rightarrow> (Inl (HTTPException 500 (exn_str e)), am')
           | (Inr response, am') \<Rightarrow> (Inr \<lparr>answer = response, reasoning = None\<rparr>, am')))"

text \<open>
  The context string that \<^verbatim>\<open>chat\<close> puts into the prompt for a question: the contents
  of the retrieved documents joined by newlines. When the search raises there is no
  prompt (\<^verbatim>\<open>chat\<close> fails); the function is the empty string there.
\<close>

definition retrieved_context ::
  "('vs, 'e, 'pg) libs \<Rightarrow> ('vs, 'e) agent_manager \<Rightarrow> string \<Rightarrow> string" where
  "retrieved_context L am question =
     (case get_similar_docs L am question 3 of
        Inl e \<Rightarrow> []
      | Inr docs \<Rightarrow> join nl (map page_content docs))"

text \<open>A sequence of chat requests, one after the other.\<close>

fun chats ::
  "('vs, 'e, 'pg) libs \<Rightarrow> ('vs, 'e) agent_manager \<Rightarrow> string list \<Rightarrow>
     (http_error + chat_response) list \<times> ('vs, 'e) agent_manager" where
  "chats L am [] = ([], am)"
| "chats L am (q # qs) =
     (case chat L am q of
        (r, am') \<Rightarrow> (case chats L am' qs of (rs, am'') \<Rightarrow> (r # rs, am'')))"

subsection \<open>\<^verbatim>\<open>main.py\<close>\<close>

datatype request = UploadRequest nat upload | ChatRequest string | TestRequest

datatype response =
  UploadResponse "http_error + string"
| ChatResponse "http_error + chat_response"
| TestResponse string

text \<open>A response to a chat request that carries an answer.\<close>

fun chat_ok :: "response \<Rightarrow> bool" where
  "chat_ok (ChatResponse (Inr a)) = True"
| "chat_ok r = False"

fun handle ::
  "('vs, 'e, 'pg) libs \<Rightarrow> ('vs, 'e) server \<Rightarrow> request \<Rightarrow> response \<times> ('vs, 'e) server" where
  "handle L st (UploadRequest temp_file_path file) =
     (case upload_file L temp_file_path file st of (r, st') \<Rightarrow> (UploadResponse r, st'))"
| "handle L st (ChatRequest question) =
     (case chat L (manager st) question of (r, am') \<Rightarrow> (ChatResponse r, st\<lparr>manager := am'\<rparr>))"
| "handle L st TestRequest = (TestResponse ''Backend is working!'', st)"

fun serve ::
  "('vs, 'e, 'pg) libs \<Rightarrow> ('vs, 'e) server \<Rightarrow> request list \<Rightarrow> response list \<times> ('vs, 'e) server" where
  "serve L st [] = ([], st)"
| "serve L st (rq # rqs) =
     (case handle L st rq of
        (r, st') \<Rightarrow> (case serve L st' rqs of (rs, st'') \<Rightarrow> (r # rs, st'')))"

text \<open>
  The process: importing \<^verbatim>\<open>backend.routes\<close> imports \<^verbatim>\<open>backend.agent\<close>, whose last
  statement constructs \<^verbatim>\<open>agent_manager\<close>. An exception there ends the import and with
  it the process; only afterwards is the application created and run.
\<close>

definition main ::
  "('vs, 'e, 'pg) libs \<Rightarrow> environ \<Rightarrow> request list \<Rightarrow> exn + (response list \<times> ('vs, 'e) server)" where
  "main L env requests =
     (case initialize_components L env of
        Inl e \<Rightarrow> Inl e
      | Inr am \<Rightarrow> Inr (serve L \<lparr>manager = am, temp_files = {}\<rparr> requests))"

subsection \<open>A concrete instance of the packages\<close>

text \<open>
  To run the handlers on concrete inputs the packages need concrete stand-ins. Here a
  vector store is the list of its texts, a search returns the first \<open>k\<close> of them, the
  reasoning loop answers \<^verbatim>\<open>ok\<close>, and a PDF has its whole content on one page that does
  not extract.
\<close>

definition simple_libs :: "(string list, unit, bytes) libs" where
  "simple_libs =
     \<lparr>hf_embeddings = (\<lambda>m. Inr ()),
      from_texts = (\<lambda>texts emb. Inr texts),
      similarity_search = (\<lambda>vs query k. Inr (map Document (take (nat k) vs))),
      python_repl_run = (\<lambda>s. s),
      agent_executor = (\<lambda>ts l h input. Inr ''ok''),
      read_text = (\<lambda>b. Inr b),
      pdf_reader = (\<lambda>b. Inr [b]),
      extract_text = (\<lambda>pg. Inl (Exn ''PdfReadError'' ''cannot extract'')),
      split_text = (\<lambda>c text. Inr [text])\<rparr>"

definition key_env :: environ where
  "key_env = [''GOOGLE_API_KEY'' \<mapsto> ''secret'']"

definition simple_manager :: "(string list, unit) agent_manager" where
  "simple_manager =
     \<lparr>the_agent = \<lparr>tools = [calculator simple_libs],
                   agent_llm = \<lparr>model = ''gemini-2.0-flash-001'', temperature = 0\<rparr>,
                   memory = []\<rparr>,
      vector_store = [''''],
      embeddings = ()\<rparr>"

text \<open>
  The same packages with a splitter that accepts a single configuration, chunk size 1000
  with overlap 200, and raises on every other one.
\<close>

definition strict_libs :: "(string list, unit, bytes) libs" where
  "strict_libs =
     simple_libs\<lparr>split_text :=
       (\<lambda>c text. if chunk_size c = 1000 \<and> chunk_overlap c = 200 then Inr [text]
                  else Inl (Exn ''ValueError'' ''unexpected splitter configuration''))\<rparr>"

section \<open>Theorems\<close>

subsection \<open>The tool\<close>

text \<open>
  How the tool is wired: the agent that \<^verbatim>\<open>_setup_agent\<close> builds has exactly one tool,
  its name is "calculator", and its function is \<^verbatim>\<open>PythonREPL.run\<close> with nothing in
  between. What \<^verbatim>\<open>PythonREPL.run\<close> does with a string is the business of that
  package and of the Python interpreter; nothing is stated about it here.
\<close>

lemma calculator_is_python_repl:
  "name (calculator L) = ''calculator'' \<and>
   func (calculator L) = python_repl_run L \<and>
   (\<forall>s. func (calculator L) s = python_repl_run L s) \<and>
   (\<forall>env ag. setup_agent L env = Inr ag \<longrightarrow> tools ag = [calculator L])"
  by (auto simp: calculator_def setup_agent_def split: option.splits if_splits)

lemma calculator_is_python_repl_simple:
  "setup_agent simple_libs key_env = Inr (the_agent simple_manager) \<and>
   tools (the_agent simple_manager) = [calculator simple_libs] \<and>
   func (calculator simple_libs) ''2 ** 10'' = python_repl_run simple_libs ''2 ** 10''"
proof -
  have ok: "setup_agent simple_libs key_env = Inr (the_agent simple_manager)"
    by (simp add: setup_agent_def key_env_def simple_manager_def)
  from calculator_is_python_repl [of simple_libs] ok show ?thesis
    by blast
qed

subsection \<open>Facts about the concrete instance\<close>

lemma simple_init: "initialize_components simple_libs key_env = Inr simple_manager"
  by (simp add: initialize_components_def simple_libs_def setup_agent_def key_env_def
      simple_manager_def calculator_def)

lemma take_docs_within: "page_content ` set (map Document (take n vs)) \<subseteq> set vs"
  using set_take_subset [of n vs] by auto

lemma simple_search_within_index:
  "from_texts simple_libs texts emb = Inr vs \<and>
   similarity_search simple_libs vs query k = Inr docs \<longrightarrow>
   page_content ` set docs \<subseteq> set texts"
  using take_docs_within [of "nat k" texts]
  by (auto simp: simple_libs_def)

lemma simple_txt_name: "endswith ''notes.txt'' ''.txt''"
  by (simp add: endswith_def)

lemma simple_pdf_name:
  "\<not> endswith ''paper.pdf'' ''.txt''" "endswith ''paper.pdf'' ''.pdf''"
  by (simp_all add: endswith_def)

lemma simple_docx_name:
  "\<not> endswith ''notes.docx'' ''.txt''" "\<not> endswith ''notes.docx'' ''.pdf''"
  by (simp_all add: endswith_def)

lemma simple_pdf_text:
  "document_text simple_libs ''paper.pdf'' content = Inl (Exn ''PdfReadError'' ''cannot extract'')"
  by (simp add: document_text_def simple_pdf_name simple_libs_def)

subsection \<open>The upload handler\<close>

text \<open>
  C4. An upload whose file name ends neither in \<^verbatim>\<open>.txt\<close> nor in \<^verbatim>\<open>.pdf\<close> is
  answered with \<^verbatim>\<open>HTTPException\<close> of status 400, a client error, and the state of the
  server is the one before the request: no temporary file was created and the agent
  manager with its vector store is untouched. The status tells the two kinds of failure
  apart: whenever \<^verbatim>\<open>upload_file\<close> answers with an \<^verbatim>\<open>HTTPException\<close>, the status is
  400 exactly for a rejected file name and 500 for a file name that was accepted and
  whose processing failed.
\<close>

theorem upload_rejects_other_extensions:
  assumes "\<not> endswith (filename file) ''.txt''" and "\<not> endswith (filename file) ''.pdf''"
  shows "upload_file L p file st = (Inl (HTTPException 400 ''File must be .txt or .pdf''), st) \<and>
         (\<forall>p' file' st' c d. fst (upload_file L p' file' st') = Inl (HTTPException c d) \<longrightarrow>
            (if endswith (filename file') ''.txt'' \<or> endswith (filename file') ''.pdf''
             then c = 500 else c = 400))"
  using assms
  by (auto simp: upload_file_def split: sum.splits prod.splits)

theorem upload_rejects_other_extensions_witness:
  "\<not> endswith ''notes.docx'' ''.txt'' \<and> \<not> endswith ''notes.docx'' ''.pdf'' \<and>
   upload_file simple_libs 7 \<lparr>filename = ''notes.docx'', file_read = Inr ''abc''\<rparr>
     \<lparr>manager = simple_manager, temp_files = {}\<rparr> =
   (Inl (HTTPException 400 ''File must be .txt or .pdf''),
    \<lparr>manager = simple_manager, temp_files = {}\<rparr>)"
  using upload_rejects_other_extensions
    [of "\<lparr>filename = ''notes.docx'', file_read = Inr ''abc''\<rparr>" simple_libs 7
        "\<lparr>manager = simple_manager, temp_files = {}\<rparr>"]
  by (simp add: simple_docx_name)

text \<open>
  Failures inside the \<^verbatim>\<open>try\<close> block. Take an upload whose file name passed the
  extension check and whose content was copied into the temporary file, and let the
  processing fail before the vector store is reached: reading the text file, reading the
  PDF or extracting one of its pages raises, or the splitter raises. Then the answer is
  \<^verbatim>\<open>HTTPException\<close> of status 500 with the text of the exception as detail, the agent
  manager (and so the vector store) is exactly the one before the request, and the
  temporary file does not exist afterwards; all other temporary files are as before.
\<close>

lemma upload_failure_keeps_store:
  assumes "endswith (filename file) ''.txt'' \<or> endswith (filename file) ''.pdf''"
    and "file_read file = Inr content"
    and "document_text L (filename file) content = Inl e \<or>
         (\<exists>text. document_text L (filename file) content = Inr text \<and>
                  split_text L text_splitter text = Inl e)"
  shows "upload_file L p file st =
           (Inl (HTTPException 500 (exn_str e)), st\<lparr>temp_files := temp_files st - {p}\<rparr>) \<and>
         manager (snd (upload_file L p file st)) = manager st \<and>
         p \<notin> temp_files (snd (upload_file L p file st))"
  using assms
  by (auto simp: upload_file_def process_upload_def split: sum.splits prod.splits)

lemma upload_failure_keeps_store_simple:
  "endswith ''paper.pdf'' ''.pdf'' \<and>
   document_text simple_libs ''paper.pdf'' ''%PDF-1.4'' =
     Inl (Exn ''PdfReadError'' ''cannot extract'') \<and>
   upload_file simple_libs 7 \<lparr>filename = ''paper.pdf'', file_read = Inr ''%PDF-1.4''\<rparr>
     \<lparr>manager = simple_manager, temp_files = {3}\<rparr> =
   (Inl (HTTPException 500 ''cannot extract''),
    \<lparr>manager = simple_manager, temp_files = {3}\<rparr>)"
  using upload_failure_keeps_store
    [of "\<lparr>filename = ''paper.pdf'', file_read = Inr ''%PDF-1.4''\<rparr>" "''%PDF-1.4''"
        simple_libs "Exn ''PdfReadError'' ''cannot extract''" 7
        "\<lparr>manager = simple_manager, temp_files = {3}\<rparr>"]
  by (simp add: simple_pdf_name simple_pdf_text)

text \<open>
  A failure while the upload is copied into the temporary file. The \<^verbatim>\<open>with\<close> block
  of lines 72 to 75 is not inside the \<^verbatim>\<open>try\<close>: when \<^verbatim>\<open>await file.read()\<close> raises,
  the exception leaves the handler uncaught, the \<^verbatim>\<open>finally\<close> clause is never entered,
  and the file that \<^verbatim>\<open>NamedTemporaryFile(delete=False)\<close> created stays. The agent
  manager is unchanged.
\<close>

lemma upload_read_failure:
  assumes "endswith (filename file) ''.txt'' \<or> endswith (filename file) ''.pdf''"
    and "file_read file = Inl e"
  shows "upload_file L p file st =
           (Inl (Unhandled e), st\<lparr>temp_files := insert p (temp_files st)\<rparr>)"
  using assms
  by (auto simp: upload_file_def)

text \<open>
  C9. The claim is that every upload which passes the extension check and whose
  processing then fails, the file read included, is answered with an error of the 500
  kind, leaves the vector store as it was and has its temporary file deleted on every
  path. The code does not delete the file on the path above. For the upload
  \<^verbatim>\<open>notes.txt\<close> whose read raises \<^verbatim>\<open>OSError\<close>, with temporary path 7 and no
  temporary file before the request, the handler ends with the uncaught
  \<^verbatim>\<open>OSError\<close>, the agent manager is unchanged, and the temporary file 7 exists after
  the request.
\<close>

theorem upload_read_failure_leaves_temp_file:
  "upload_file simple_libs 7
     \<lparr>filename = ''notes.txt'', file_read = Inl (Exn ''OSError'' ''Input/output error'')\<rparr>
     \<lparr>manager = simple_manager, temp_files = {}\<rparr> =
   (Inl (Unhandled (Exn ''OSError'' ''Input/output error'')),
    \<lparr>manager = simple_manager, temp_files = {7}\<rparr>) \<and>
   7 \<in> temp_files (snd (upload_file simple_libs 7
     \<lparr>filename = ''notes.txt'', file_read = Inl (Exn ''OSError'' ''Input/output error'')\<rparr>
     \<lparr>manager = simple_manager, temp_files = {}\<rparr>))"
  by (simp add: upload_file_def simple_txt_name)

lemma upload_file_splits:
  assumes "endswith (filename file) ''.txt'' \<or> endswith (filename file) ''.pdf''"
    and "file_read file = Inr content"
    and "document_text L (filename file) content = Inr text"
  shows "upload_file L p file st =
        (case split_text L text_splitter text of
           Inl e \<Rightarrow> (Inl (HTTPException 500 (exn_str e)),
                     st\<lparr>temp_files := temp_files st - {p}\<rparr>)
         | Inr chunks \<Rightarrow>
            (case update_vector_store L (manager st) chunks of
               Inl e \<Rightarrow> (Inl (HTTPException 500 (exn_str e)),
                         st\<lparr>temp_files := temp_files st - {p}\<rparr>)
             | Inr am' \<Rightarrow> (Inr ''File processed successfully'',
                          st\<lparr>manager := am', temp_files := temp_files st - {p}\<rparr>)))"
  using assms
  by (auto simp: upload_file_def process_upload_def split: sum.splits)

lemma upload_file_success:
  assumes "upload_file L p file st = (Inr message, st')"
  shows "\<exists>content text chunks. file_read file = Inr content \<and>
           document_text L (filename file) content = Inr text \<and>
           split_text L text_splitter text = Inr chunks \<and>
           update_vector_store L (manager st) chunks = Inr (manager st')"
  using assms
  by (auto simp: upload_file_def process_upload_def split: sum.splits if_splits prod.splits)

lemma upload_file_same_splitter:
  "upload_file L p file st =
     upload_file (L\<lparr>split_text := \<lambda>c. split_text L text_splitter\<rparr>) p file st"
proof -
  let ?L' = "L\<lparr>split_text := \<lambda>c. split_text L text_splitter\<rparr>"
  have ex: "extract_pages ?L' t pages = extract_pages L t pages" for t pages
    by (induction pages arbitrary: t) (auto split: sum.splits)
  have dt: "document_text ?L' fname content = document_text L fname content" for fname content
    by (simp add: document_text_def ex split: sum.splits)
  have uv: "update_vector_store ?L' am ts = update_vector_store L am ts" for am ts
    by (simp add: update_vector_store_def)
  have pu: "process_upload ?L' fname content am = process_upload L fname content am"
    for fname content am
    by (simp add: process_upload_def dt uv split: sum.splits)
  show ?thesis
    by (simp add: upload_file_def pu split: sum.splits)
qed

lemma process_upload_success:
  "process_upload L fname content am = Inr (message, am') \<Longrightarrow>
      \<exists>text chunks. document_text L fname content = Inr text \<and>
         split_text L text_splitter text = Inr chunks \<and>
         update_vector_store L am chunks = Inr am'"
  by (auto simp: process_upload_def split: sum.splits)

lemma strict_txt: "document_text strict_libs ''notes.txt'' content = Inr content"
  by (simp add: document_text_def simple_txt_name strict_libs_def simple_libs_def)

text \<open>
  C8. The splitter of \<^verbatim>\<open>upload_file\<close> is configured with chunk size 1000 and overlap
  200, and 200 is at most 1000 - 1. Every upload runs the splitter with this
  configuration, whatever the document: for every upload with an accepted file name
  whose content was read and whose text was extracted, the outcome of
  \<^verbatim>\<open>upload_file\<close> is determined by the result of splitting that text with chunk size
  1000 and overlap 200: status 500 when the splitter raises, and otherwise the attempt
  to replace the vector store by the index of exactly the chunks it returned. Every
  upload that is answered with success has split the text of its document with this
  configuration and stored the resulting chunks. The handler behaves the same when the
  splitting function is replaced by one that ignores the configuration it is given and
  uses 1000 and 200.
\<close>

theorem chunker_constants:
  "chunk_size text_splitter = 1000 \<and> chunk_overlap text_splitter = 200 \<and>
   chunk_overlap text_splitter \<le> chunk_size text_splitter - 1 \<and>
   upload_file L p file st =
     upload_file (L\<lparr>split_text := \<lambda>c. split_text L text_splitter\<rparr>) p file st \<and>
   (\<forall>fname content am message am'.
      process_upload L fname content am = Inr (message, am') \<longrightarrow>
      (\<exists>text chunks. document_text L fname content = Inr text \<and>
         split_text L text_splitter text = Inr chunks \<and>
         update_vector_store L am chunks = Inr am')) \<and>
   (\<forall>q upl s content text.
      (endswith (filename upl) ''.txt'' \<or> endswith (filename upl) ''.pdf'') \<and>
      file_read upl = Inr content \<and> document_text L (filename upl) content = Inr text \<longrightarrow>
      upload_file L q upl s =
        (case split_text L text_splitter text of
           Inl e \<Rightarrow> (Inl (HTTPException 500 (exn_str e)),
                     s\<lparr>temp_files := temp_files s - {q}\<rparr>)
         | Inr chunks \<Rightarrow>
            (case update_vector_store L (manager s) chunks of
               Inl e \<Rightarrow> (Inl (HTTPException 500 (exn_str e)),
                         s\<lparr>temp_files := temp_files s - {q}\<rparr>)
             | Inr am' \<Rightarrow> (Inr ''File processed successfully'',
                          s\<lparr>manager := am', temp_files := temp_files s - {q}\<rparr>)))) \<and>
   (\<forall>q upl s message s'.
      upload_file L q upl s = (Inr message, s') \<longrightarrow>
      (\<exists>content text chunks. file_read upl = Inr content \<and>
           document_text L (filename upl) content = Inr text \<and>
           split_text L text_splitter text = Inr chunks \<and>
           update_vector_store L (manager s) chunks = Inr (manager s')))"
proof -
  have cst: "chunk_size text_splitter = 1000 \<and> chunk_overlap text_splitter = 200 \<and>
    chunk_overlap text_splitter \<le> chunk_size text_splitter - 1"
    by (simp add: text_splitter_def)
  from cst upload_file_same_splitter [of L p "file" st] process_upload_success [of L]
    upload_file_splits [of _ _ L] upload_file_success [of L]
  show ?thesis by blast
qed

theorem chunker_constants_witness:
  "endswith ''notes.txt'' ''.txt'' \<and>
   split_text strict_libs text_splitter ''some text'' = Inr [''some text''] \<and>
   split_text strict_libs \<lparr>chunk_size = 1000, chunk_overlap = 0\<rparr> ''some text'' =
     Inl (Exn ''ValueError'' ''unexpected splitter configuration'') \<and>
   upload_file strict_libs 7 \<lparr>filename = ''notes.txt'', file_read = Inr ''some text''\<rparr>
     \<lparr>manager = simple_manager, temp_files = {}\<rparr> =
   (Inr ''File processed successfully'',
    \<lparr>manager = simple_manager\<lparr>vector_store := [''some text'']\<rparr>, temp_files = {}\<rparr>)"
proof -
  note t = chunker_constants [of strict_libs]
  from t have c: "chunk_size text_splitter = 1000" "chunk_overlap text_splitter = 200"
    by blast+
  have sp: "split_text strict_libs text_splitter ''some text'' = Inr [''some text'']"
    by (simp add: strict_libs_def c)
  have sp0: "split_text strict_libs \<lparr>chunk_size = 1000, chunk_overlap = 0\<rparr> ''some text'' =
     Inl (Exn ''ValueError'' ''unexpected splitter configuration'')"
    by (simp add: strict_libs_def)
  have uv: "update_vector_store strict_libs simple_manager [''some text''] =
     Inr (simple_manager\<lparr>vector_store := [''some text'']\<rparr>)"
    by (simp add: update_vector_store_def strict_libs_def simple_libs_def)
  note ch = t [THEN conjunct2, THEN conjunct2, THEN conjunct2, THEN conjunct2, THEN conjunct2,
    THEN conjunct1, rule_format,
    of "\<lparr>filename = ''notes.txt'', file_read = Inr ''some text''\<rparr>" "''some text''"
       "''some text''" 7 "\<lparr>manager = simple_manager, temp_files = {}\<rparr>"]
  have "upload_file strict_libs 7 \<lparr>filename = ''notes.txt'', file_read = Inr ''some text''\<rparr>
     \<lparr>manager = simple_manager, temp_files = {}\<rparr> =
   (Inr ''File processed successfully'',
    \<lparr>manager = simple_manager\<lparr>vector_store := [''some text'']\<rparr>, temp_files = {}\<rparr>)"
    using ch by (simp add: simple_txt_name strict_txt sp uv)
  with sp sp0 uv simple_txt_name show ?thesis by simp
qed

subsection \<open>Process start\<close>

text \<open>
  C6. When the environment has no variable \<^verbatim>\<open>GOOGLE_API_KEY\<close>, \<^verbatim>\<open>_setup_agent\<close>
  raises \<^verbatim>\<open>ValueError\<close>, the construction of the agent manager fails, and the process
  ends with an exception whatever requests are waiting: none of them is answered. When
  the embeddings and the initial vector store were built, the exception the process
  ends with is this \<^verbatim>\<open>ValueError\<close>. The construction is attempted once; the result of
  the process is its failure.
\<close>

theorem missing_key_fails_at_startup:
  assumes "env ''GOOGLE_API_KEY'' = None"
  shows "setup_agent L env =
           Inl (Exn ''ValueError'' ''GOOGLE_API_KEY environment variable is not set'') \<and>
         isl (initialize_components L env) \<and>
         isl (main L env requests) \<and>
         (\<forall>emb vs. hf_embeddings L ''sentence-transformers/all-MiniLM-L6-v2'' = Inr emb \<and>
                   from_texts L [''''] emb = Inr vs \<longrightarrow>
            main L env requests =
              Inl (Exn ''ValueError'' ''GOOGLE_API_KEY environment variable is not set''))"
proof -
  have sa: "setup_agent L env =
      Inl (Exn ''ValueError'' ''GOOGLE_API_KEY environment variable is not set'')"
    using assms by (simp add: setup_agent_def)
  have ic: "isl (initialize_components L env)"
    by (simp add: initialize_components_def sa split: sum.splits)
  have mn: "isl (main L env requests)"
    using ic by (auto simp: main_def split: sum.splits)
  have ex: "\<forall>emb vs. hf_embeddings L ''sentence-transformers/all-MiniLM-L6-v2'' = Inr emb \<and>
                   from_texts L [''''] emb = Inr vs \<longrightarrow>
            main L env requests =
              Inl (Exn ''ValueError'' ''GOOGLE_API_KEY environment variable is not set'')"
    by (simp add: main_def initialize_components_def sa)
  from sa ic mn ex show ?thesis by blast
qed

theorem missing_key_fails_at_startup_witness:
  "Map.empty ''GOOGLE_API_KEY'' = (None :: string option) \<and>
   main simple_libs Map.empty [ChatRequest ''hello'', TestRequest] =
     Inl (Exn ''ValueError'' ''GOOGLE_API_KEY environment variable is not set'')"
  using missing_key_fails_at_startup
    [of Map.empty simple_libs "[ChatRequest ''hello'', TestRequest]"]
  by (simp add: simple_libs_def)

text \<open>
  C7. When the agent manager has been constructed, its vector store is the index that
  \<^verbatim>\<open>FAISS.from_texts\<close> builds from the list with the single text \<^verbatim>\<open>""\<close>, with the
  embeddings of the manager, and this is the state in which the server takes its first
  request. Provided a search on an index returns only texts the index was built from,
  every document that a search returns in this state has the empty string as content.
\<close>

theorem initial_index_is_placeholder:
  assumes "initialize_components L env = Inr am"
  shows "hf_embeddings L ''sentence-transformers/all-MiniLM-L6-v2'' = Inr (embeddings am) \<and>
         from_texts L [''''] (embeddings am) = Inr (vector_store am) \<and>
         main L env [] = Inr ([], \<lparr>manager = am, temp_files = {}\<rparr>) \<and>
         ((\<forall>texts emb vs query k docs.
              from_texts L texts emb = Inr vs \<and> similarity_search L vs query k = Inr docs \<longrightarrow>
              page_content ` set docs \<subseteq> set texts) \<longrightarrow>
          (\<forall>query k docs. get_similar_docs L am query k = Inr docs \<longrightarrow>
              (\<forall>d \<in> set docs. page_content d = '''')))"
proof -
  from assms have emb:
    "hf_embeddings L ''sentence-transformers/all-MiniLM-L6-v2'' = Inr (embeddings am)"
    by (auto simp: initialize_components_def split: sum.splits)
  from assms have vs: "from_texts L [''''] (embeddings am) = Inr (vector_store am)"
    by (auto simp: initialize_components_def split: sum.splits)
  from assms have mn: "main L env [] = Inr ([], \<lparr>manager = am, temp_files = {}\<rparr>)"
    by (simp add: main_def)
  have srch: "(\<forall>texts emb vs query k docs.
              from_texts L texts emb = Inr vs \<and> similarity_search L vs query k = Inr docs \<longrightarrow>
              page_content ` set docs \<subseteq> set texts) \<longrightarrow>
          (\<forall>query k docs. get_similar_docs L am query k = Inr docs \<longrightarrow>
              (\<forall>d \<in> set docs. page_content d = ''''))"
  proof (intro impI allI ballI)
    fix query k docs d
    assume within: "\<forall>texts emb vs query k docs.
              from_texts L texts emb = Inr vs \<and> similarity_search L vs query k = Inr docs \<longrightarrow>
              page_content ` set docs \<subseteq> set texts"
      and g: "get_similar_docs L am query k = Inr docs" and d: "d \<in> set docs"
    from g have "similarity_search L (vector_store am) query k = Inr docs"
      by (simp add: get_similar_docs_def)
    with within vs have "page_content ` set docs \<subseteq> set ['''']" by blast
    with d show "page_content d = ''''" by auto
  qed
  from emb vs mn srch show ?thesis by blast
qed

theorem initial_index_is_placeholder_witness:
  "initialize_components simple_libs key_env = Inr simple_manager \<and>
   from_texts simple_libs [''''] (embeddings simple_manager) = Inr (vector_store simple_manager) \<and>
   get_similar_docs simple_libs simple_manager ''capital of France'' 3 = Inr [Document ''''] \<and>
   page_content (Document '''') = ''''"
proof -
  have g: "get_similar_docs simple_libs simple_manager ''capital of France'' 3 =
      Inr [Document '''']"
    by (simp add: get_similar_docs_def simple_libs_def simple_manager_def)
  from initial_index_is_placeholder [OF simple_init] simple_search_within_index g
  show ?thesis
    by (simp add: simple_init)
qed

subsection \<open>Search\<close>

text \<open>
  \<^verbatim>\<open>get_similar_docs\<close> hands the query and \<open>k\<close> to the vector store as they are,
  for every \<open>k\<close>: it has no check of its own, and what it returns or raises is what
  \<^verbatim>\<open>similarity_search\<close> of FAISS returns or raises.
\<close>

lemma get_similar_docs_delegates:
  "get_similar_docs L am query k = similarity_search L (vector_store am) query k"
  by (simp add: get_similar_docs_def)

subsection \<open>Ingestion\<close>

text \<open>
  C1. An ingestion that completes replaces the vector store by the index that
  \<^verbatim>\<open>FAISS.from_texts\<close> builds from exactly the given chunks with the embeddings of the
  manager; the agent and the embeddings stay. The previous index plays no part: the
  result is the same whatever index the manager held before, and a second ingestion
  after a first leaves the manager that the second ingestion alone would have left.
  Provided a search on an index returns only texts the index was built from, no chunk
  of the first ingestion that is not among the chunks of the second is the content of a
  document that a search returns after the second ingestion.
\<close>

theorem ingestion_replaces_index:
  assumes "update_vector_store L am0 texts1 = Inr am1"
    and "update_vector_store L am1 texts2 = Inr am2"
  shows "from_texts L texts2 (embeddings am1) = Inr (vector_store am2) \<and>
         the_agent am2 = the_agent am1 \<and> embeddings am2 = embeddings am1 \<and>
         (\<forall>vs. update_vector_store L (am1\<lparr>vector_store := vs\<rparr>) texts2 = Inr am2) \<and>
         update_vector_store L am0 texts2 = Inr am2 \<and>
         ((\<forall>texts emb vs query k docs.
              from_texts L texts emb = Inr vs \<and> similarity_search L vs query k = Inr docs \<longrightarrow>
              page_content ` set docs \<subseteq> set texts) \<longrightarrow>
          (\<forall>query k docs c. get_similar_docs L am2 query k = Inr docs \<and>
              c \<in> set texts1 \<and> c \<notin> set texts2 \<longrightarrow> c \<notin> page_content ` set docs))"
proof -
  from assms(1) obtain vs1 where
    v1: "from_texts L texts1 (embeddings am0) = Inr vs1" and a1: "am1 = am0\<lparr>vector_store := vs1\<rparr>"
    by (auto simp: update_vector_store_def split: sum.splits)
  from assms(2) obtain vs2 where
    v2: "from_texts L texts2 (embeddings am1) = Inr vs2" and a2: "am2 = am1\<lparr>vector_store := vs2\<rparr>"
    by (auto simp: update_vector_store_def split: sum.splits)
  have built: "from_texts L texts2 (embeddings am1) = Inr (vector_store am2)"
    using v2 a2 by simp
  have rest: "the_agent am2 = the_agent am1 \<and> embeddings am2 = embeddings am1"
    using a2 by simp
  have prev: "\<forall>vs. update_vector_store L (am1\<lparr>vector_store := vs\<rparr>) texts2 = Inr am2"
    using v2 a2 by (simp add: update_vector_store_def)
  have alone: "update_vector_store L am0 texts2 = Inr am2"
    using v2 a1 a2 by (simp add: update_vector_store_def)
  have gone: "(\<forall>texts emb vs query k docs.
              from_texts L texts emb = Inr vs \<and> similarity_search L vs query k = Inr docs \<longrightarrow>
              page_content ` set docs \<subseteq> set texts) \<longrightarrow>
          (\<forall>query k docs c. get_similar_docs L am2 query k = Inr docs \<and>
              c \<in> set texts1 \<and> c \<notin> set texts2 \<longrightarrow> c \<notin> page_content ` set docs)"
  proof (intro impI allI)
    fix query k docs c
    assume within: "\<forall>texts emb vs query k docs.
              from_texts L texts emb = Inr vs \<and> similarity_search L vs query k = Inr docs \<longrightarrow>
              page_content ` set docs \<subseteq> set texts"
      and h: "get_similar_docs L am2 query k = Inr docs \<and> c \<in> set texts1 \<and> c \<notin> set texts2"
    from h have "similarity_search L (vector_store am2) query k = Inr docs"
      by (simp add: get_similar_docs_def)
    with within built have "page_content ` set docs \<subseteq> set texts2" by blast
    with h show "c \<notin> page_content ` set docs" by blast
  qed
  from built rest prev alone gone show ?thesis by blast
qed

theorem ingestion_replaces_index_witness:
  "update_vector_store simple_libs simple_manager [''alpha'', ''beta''] =
     Inr (simple_manager\<lparr>vector_store := [''alpha'', ''beta'']\<rparr>) \<and>
   update_vector_store simple_libs (simple_manager\<lparr>vector_store := [''alpha'', ''beta'']\<rparr>)
       [''beta'', ''gamma''] =
     Inr (simple_manager\<lparr>vector_store := [''beta'', ''gamma'']\<rparr>) \<and>
   update_vector_store simple_libs simple_manager [''beta'', ''gamma''] =
     Inr (simple_manager\<lparr>vector_store := [''beta'', ''gamma'']\<rparr>) \<and>
   get_similar_docs simple_libs (simple_manager\<lparr>vector_store := [''beta'', ''gamma'']\<rparr>)
       ''alpha'' 3 = Inr [Document ''beta'', Document ''gamma''] \<and>
   ''alpha'' \<notin> page_content ` set [Document ''beta'', Document ''gamma'']"
proof -
  have u1: "update_vector_store simple_libs simple_manager [''alpha'', ''beta''] =
     Inr (simple_manager\<lparr>vector_store := [''alpha'', ''beta'']\<rparr>)"
    by (simp add: update_vector_store_def simple_libs_def)
  have u2: "update_vector_store simple_libs (simple_manager\<lparr>vector_store := [''alpha'', ''beta'']\<rparr>)
       [''beta'', ''gamma''] =
     Inr (simple_manager\<lparr>vector_store := [''beta'', ''gamma'']\<rparr>)"
    by (simp add: update_vector_store_def simple_libs_def)
  have g: "get_similar_docs simple_libs (simple_manager\<lparr>vector_store := [''beta'', ''gamma'']\<rparr>)
       ''alpha'' 3 = Inr [Document ''beta'', Document ''gamma'']"
    by (simp add: get_similar_docs_def simple_libs_def)
  from ingestion_replaces_index [OF u1 u2] simple_search_within_index g u1 u2
  show ?thesis by simp
qed

subsection \<open>Conversation memory\<close>

lemma chat_prompt_longer: "length question < length (chat_prompt context question)"
  by (simp add: chat_prompt_def)

lemma chat_success:
  assumes "chat L am q = (Inr resp, am')"
  shows "memory (the_agent am') =
           memory (the_agent am) @
           [(Human, chat_prompt (retrieved_context L am q) q), (AI, answer resp)] \<and>
         vector_store am' = vector_store am"
  using assms
  by (auto simp: chat_def run_agent_def agent_run_def retrieved_context_def
      split: sum.splits prod.splits)

lemma retrieved_context_store:
  "vector_store am' = vector_store am \<Longrightarrow> retrieved_context L am' = retrieved_context L am"
  by (auto simp: retrieved_context_def get_similar_docs_def fun_eq_iff)

lemma chats_memory:
  assumes "chats L am qs = (rs, am')" and "\<forall>r \<in> set rs. \<not> isl r"
  shows "length rs = length qs \<and>
         memory (the_agent am') =
           memory (the_agent am) @
           concat (map2 (\<lambda>q r. [(Human, chat_prompt (retrieved_context L am q) q),
                                 (AI, answer (projr r))]) qs rs)"
  using assms
proof (induction qs arbitrary: am rs am')
  case Nil
  then show ?case by simp
next
  case (Cons q qs)
  obtain r am1 where c: "chat L am q = (r, am1)" by (cases "chat L am q")
  obtain rs1 am2 where cs: "chats L am1 qs = (rs1, am2)" by (cases "chats L am1 qs")
  from Cons.prems(1) c cs have rs: "rs = r # rs1" and am': "am' = am2" by simp_all
  from Cons.prems(2) rs obtain resp where r: "r = Inr resp" by (cases r) auto
  from Cons.prems(2) rs have ok1: "\<forall>r \<in> set rs1. \<not> isl r" by simp
  from chat_success [OF c [unfolded r]] have
    m1: "memory (the_agent am1) =
           memory (the_agent am) @
           [(Human, chat_prompt (retrieved_context L am q) q), (AI, answer resp)]"
    and v1: "vector_store am1 = vector_store am" by simp_all
  from Cons.IH [OF cs ok1] have
    l: "length rs1 = length qs" and
    m2: "memory (the_agent am2) = memory (the_agent am1) @
           concat (map2 (\<lambda>q r. [(Human, chat_prompt (retrieved_context L am1 q) q),
                                 (AI, answer (projr r))]) qs rs1)"
    by simp_all
  show ?case
    using l m1 m2 by (simp add: rs am' r retrieved_context_store [OF v1])
qed

lemma count_turns:
  "length (filter (\<lambda>t. fst t = Human)
     (concat (map (\<lambda>(q, r). [(Human, f q), (AI, g r)]) zs))) = length zs \<and>
   length (filter (\<lambda>t. fst t = AI)
     (concat (map (\<lambda>(q, r). [(Human, f q), (AI, g r)]) zs))) = length zs"
  by (induction zs) auto

lemma chat_failure:
  assumes "chat L am q = (Inl err, am')"
  shows "am' = am"
  using assms
  by (auto simp: chat_def run_agent_def agent_run_def split: sum.splits prod.splits)

lemma upload_keeps_agent:
  "the_agent (manager (snd (upload_file L p file st))) = the_agent (manager st)"
  by (auto simp: upload_file_def process_upload_def update_vector_store_def
      split: sum.splits prod.splits)

lemma handle_roles:
  assumes "handle L st rq = (r, st')"
  shows "map fst (memory (the_agent (manager st'))) =
         map fst (memory (the_agent (manager st))) @ (if chat_ok r then [Human, AI] else [])"
proof (cases rq)
  case (UploadRequest p upl)
  with assms upload_keeps_agent [of L p upl st] show ?thesis
    by (auto split: prod.splits)
next
  case (ChatRequest q)
  obtain c am' where c: "chat L (manager st) q = (c, am')" by (cases "chat L (manager st) q")
  show ?thesis
  proof (cases c)
    case (Inl err)
    with c chat_failure have "am' = manager st" by blast
    with assms ChatRequest c Inl show ?thesis by auto
  next
    case (Inr resp)
    with c chat_success have "memory (the_agent am') =
           memory (the_agent (manager st)) @
           [(Human, chat_prompt (retrieved_context L (manager st) q) q), (AI, answer resp)]"
      by blast
    with assms ChatRequest c Inr show ?thesis by auto
  qed
next
  case TestRequest
  with assms show ?thesis by auto
qed

lemma serve_roles:
  assumes "serve L st rqs = (rs, st')"
  shows "map fst (memory (the_agent (manager st'))) =
         map fst (memory (the_agent (manager st))) @
         concat (replicate (length (filter chat_ok rs)) [Human, AI])"
  using assms
proof (induction rqs arbitrary: st rs st')
  case Nil
  then show ?case by simp
next
  case (Cons rq rqs)
  obtain r st1 where h: "handle L st rq = (r, st1)" by (cases "handle L st rq")
  obtain rs1 st2 where s: "serve L st1 rqs = (rs1, st2)" by (cases "serve L st1 rqs")
  from Cons.prems h s have rs: "rs = r # rs1" and st': "st' = st2" by simp_all
  from handle_roles [OF h] Cons.IH [OF s] show ?case
    by (simp add: rs st')
qed

lemma initial_memory:
  "initialize_components L env = Inr am \<Longrightarrow> memory (the_agent am) = []"
  by (auto simp: initialize_components_def setup_agent_def
      split: sum.splits option.splits if_splits)

lemma main_roles:
  assumes "main L env requests = Inr (responses, st)"
  shows "map fst (memory (the_agent (manager st))) =
         concat (replicate (length (filter chat_ok responses)) [Human, AI])"
proof -
  from assms obtain am where i: "initialize_components L env = Inr am"
    and s: "serve L \<lparr>manager = am, temp_files = {}\<rparr> requests = (responses, st)"
    by (auto simp: main_def split: sum.splits)
  from serve_roles [OF s] initial_memory [OF i] show ?thesis by simp
qed

text \<open>
  C2, as the claim states it, fails: the agent is run on the prompt that \<^verbatim>\<open>chat\<close>
  builds, not on the question, so the user entry of the memory is the prompt. For the
  question \<^verbatim>\<open>hi\<close>, answered \<^verbatim>\<open>ok\<close>, the memory is not extended by (user, hi),
  (agent, ok).
\<close>

theorem chat_memory_holds_prompt_counterexample:
  "fst (chat simple_libs simple_manager ''hi'') = Inr \<lparr>answer = ''ok'', reasoning = None\<rparr> \<and>
   memory (the_agent (snd (chat simple_libs simple_manager ''hi''))) \<noteq>
     memory (the_agent simple_manager) @ [(Human, ''hi''), (AI, ''ok'')]"
  by (simp add: chat_def run_agent_def agent_run_def get_similar_docs_def simple_libs_def
      simple_manager_def chat_prompt_def)

text \<open>
  C2, amended. Every successful chat request with question \<open>q\<close> and answer \<open>a\<close>
  extends the conversation memory by exactly one pair of entries: (user, \<open>p\<close>) followed
  by (agent, \<open>a\<close>), where \<open>p\<close> is the prompt that \<^verbatim>\<open>chat\<close> builds around the retrieved
  context and \<open>q\<close>. After \<open>N\<close> successful chat requests in a row the memory is the
  earlier memory followed by these \<open>N\<close> pairs in the order of the requests, so it has
  \<open>N\<close> more user entries and \<open>N\<close> more agent entries. Over the life of the
  process, with uploads, test requests and failed chat requests in between, the roles in
  the memory are user, agent repeated once for each chat request that was answered.
\<close>

theorem chat_memory_holds_prompt:
  assumes "chats L am qs = (rs, am')" and "\<forall>r \<in> set rs. \<not> isl r"
  shows "length rs = length qs \<and>
         memory (the_agent am') =
           memory (the_agent am) @
           concat (map2 (\<lambda>q r. [(Human, chat_prompt (retrieved_context L am q) q),
                                 (AI, answer (projr r))]) qs rs) \<and>
         length (filter (\<lambda>t. fst t = Human) (memory (the_agent am'))) =
           length (filter (\<lambda>t. fst t = Human) (memory (the_agent am))) + length qs \<and>
         length (filter (\<lambda>t. fst t = AI) (memory (the_agent am'))) =
           length (filter (\<lambda>t. fst t = AI) (memory (the_agent am))) + length qs \<and>
         (\<forall>env requests responses st.
            main L env requests = Inr (responses, st) \<longrightarrow>
            map fst (memory (the_agent (manager st))) =
              concat (replicate (length (filter chat_ok responses)) [Human, AI]))"
proof -
  from chats_memory [OF assms] have l: "length rs = length qs" and
    m: "memory (the_agent am') =
           memory (the_agent am) @
           concat (map2 (\<lambda>q r. [(Human, chat_prompt (retrieved_context L am q) q),
                                 (AI, answer (projr r))]) qs rs)"
    by simp_all
  from count_turns [of "\<lambda>q. chat_prompt (retrieved_context L am q) q" "\<lambda>r. answer (projr r)" "zip qs rs"] l
  have "length (filter (\<lambda>t. fst t = Human) (memory (the_agent am'))) =
           length (filter (\<lambda>t. fst t = Human) (memory (the_agent am))) + length qs \<and>
         length (filter (\<lambda>t. fst t = AI) (memory (the_agent am'))) =
           length (filter (\<lambda>t. fst t = AI) (memory (the_agent am))) + length qs"
    by (simp add: m)
  with l m main_roles [of L] show ?thesis by blast
qed

lemma simple_chat:
  "chat simple_libs (simple_manager\<lparr>the_agent := (the_agent simple_manager)\<lparr>memory := h\<rparr>\<rparr>) q =
     (Inr \<lparr>answer = ''ok'', reasoning = None\<rparr>,
      simple_manager\<lparr>the_agent := (the_agent simple_manager)
        \<lparr>memory := h @ [(Human, chat_prompt [] q), (AI, ''ok'')]\<rparr>\<rparr>)"
  by (simp add: chat_def run_agent_def agent_run_def get_similar_docs_def simple_libs_def
      simple_manager_def)

lemma simple_manager_memory:
  "simple_manager = simple_manager\<lparr>the_agent := (the_agent simple_manager)\<lparr>memory := []\<rparr>\<rparr>"
  by (simp add: simple_manager_def)

lemma simple_chats:
  "chats simple_libs simple_manager [''hi'', ''why''] =
     ([Inr \<lparr>answer = ''ok'', reasoning = None\<rparr>, Inr \<lparr>answer = ''ok'', reasoning = None\<rparr>],
      simple_manager\<lparr>the_agent := (the_agent simple_manager)
        \<lparr>memory := [(Human, chat_prompt [] ''hi''), (AI, ''ok''),
                    (Human, chat_prompt [] ''why''), (AI, ''ok'')]\<rparr>\<rparr>)"
proof -
  have "chats simple_libs
          (simple_manager\<lparr>the_agent := (the_agent simple_manager)\<lparr>memory := []\<rparr>\<rparr>)
          [''hi'', ''why''] =
     ([Inr \<lparr>answer = ''ok'', reasoning = None\<rparr>, Inr \<lparr>answer = ''ok'', reasoning = None\<rparr>],
      simple_manager\<lparr>the_agent := (the_agent simple_manager)
        \<lparr>memory := [(Human, chat_prompt [] ''hi''), (AI, ''ok''),
                    (Human, chat_prompt [] ''why''), (AI, ''ok'')]\<rparr>\<rparr>)"
    by (simp add: simple_chat)
  then show ?thesis
    using simple_manager_memory by simp
qed

theorem chat_memory_holds_prompt_witness:
  "chats simple_libs simple_manager [''hi'', ''why''] =
     ([Inr \<lparr>answer = ''ok'', reasoning = None\<rparr>, Inr \<lparr>answer = ''ok'', reasoning = None\<rparr>],
      simple_manager\<lparr>the_agent := (the_agent simple_manager)
        \<lparr>memory := [(Human, chat_prompt [] ''hi''), (AI, ''ok''),
                    (Human, chat_prompt [] ''why''), (AI, ''ok'')]\<rparr>\<rparr>) \<and>
   length (filter (\<lambda>t. fst t = Human)
     [(Human, chat_prompt [] ''hi''), (AI, ''ok''),
      (Human, chat_prompt [] ''why''), (AI, ''ok'')]) =
   length (filter (\<lambda>t. fst t = Human) (memory (the_agent simple_manager))) + 2"
proof -
  have ok: "\<forall>r \<in> set [Inr \<lparr>answer = ''ok'', reasoning = None\<rparr>,
                        Inr \<lparr>answer = ''ok'', reasoning = None\<rparr> :: http_error + chat_response].
              \<not> isl r"
    by simp
  from chat_memory_holds_prompt [OF simple_chats ok]
  have "length (filter (\<lambda>t. fst t = Human)
     [(Human, chat_prompt [] ''hi''), (AI, ''ok''),
      (Human, chat_prompt [] ''why''), (AI, ''ok'')]) =
   length (filter (\<lambda>t. fst t = Human) (memory (the_agent simple_manager))) +
   length [''hi'', ''why'']"
    by simp
  with simple_chats show ?thesis
    by simp
qed

end
